theory Spec2Isabelle
  imports Complex_Main
begin

section \<open>The grade computation engine of the GPA calculator (app.js)\<close>

text \<open>
  The engine of \<^verbatim>\<open>app.js\<close> is four pure functions and one loop:
  \<^verbatim>\<open>mapNumericToGradePoint\<close>, \<^verbatim>\<open>mapLetterToGradePoint\<close>, \<^verbatim>\<open>getLetterFromPoint\<close>,
  \<^verbatim>\<open>computeTermGPA\<close> and \<^verbatim>\<open>computeNewCGPA\<close>.

  Numbers. A finite JavaScript number is modelled by an exact rational: the literal
  \<^verbatim>\<open>3.33\<close> is \<open>333/100\<close> and the expression \<^verbatim>\<open>10/3\<close> is the rational \<open>10/3\<close>.
  The rounding of IEEE doubles is outside the model. The values that are not finite
  numbers appear where the source tests for them and as the result of a division by
  zero.
\<close>

subsection \<open>JavaScript values\<close>

datatype js_value =
    JNumber rat
  | JPosInfinity
  | JNegInfinity
  | JNaN
  | JUndefined
  | JNull
  | JString string
  | JInherited string
    \<comment> \<open>the function or object that \<^verbatim>\<open>Object.prototype\<close> holds under that name\<close>

text \<open>\<^verbatim>\<open>typeof v === 'number'\<close>\<close>

fun typeof_number :: "js_value \<Rightarrow> bool" where
  "typeof_number (JNumber _) = True"
| "typeof_number JPosInfinity = True"
| "typeof_number JNegInfinity = True"
| "typeof_number JNaN = True"
| "typeof_number _ = False"

text \<open>
  \<^verbatim>\<open>isNaN(v)\<close>, for a value whose type is number (the only place the source calls it is
  the right operand of \<^verbatim>\<open>typeof score !== 'number' ||\<close>).
\<close>

definition isNaN :: "js_value \<Rightarrow> bool" where
  "isNaN v = (v = JNaN)"

text \<open>
  \<^verbatim>\<open>Math.max(0, Math.min(100, score))\<close> for a number that is not NaN: the infinities are
  clamped like every other number. The last equation is never reached by the caller.
\<close>

fun clamp_score :: "js_value \<Rightarrow> rat" where
  "clamp_score (JNumber x) = max 0 (min 100 x)"
| "clamp_score JPosInfinity = 100"
| "clamp_score JNegInfinity = 0"
| "clamp_score _ = 0"

text \<open>
  \<^verbatim>\<open>a / b\<close> on finite numbers. A JavaScript division never raises: by a zero divisor it
  gives \<^verbatim>\<open>NaN\<close> for a zero dividend and an infinity with the sign of the dividend
  otherwise (the zero of the model is the positive zero that the totals start from).
\<close>

definition js_divide :: "rat \<Rightarrow> rat \<Rightarrow> js_value" where
  "js_divide a b =
     (if b \<noteq> 0 then JNumber (a / b)
      else if a > 0 then JPosInfinity
      else if a < 0 then JNegInfinity
      else JNaN)"

subsection \<open>Grade mapper\<close>

text \<open>The object \<^verbatim>\<open>{ letter, point }\<close> that \<^verbatim>\<open>mapNumericToGradePoint\<close> returns.\<close>

record grade =
  grade_letter :: string
  point :: rat

definition mapNumericToGradePoint :: "js_value \<Rightarrow> grade" where
  "mapNumericToGradePoint v =
     (if \<not> typeof_number v \<or> isNaN v then \<lparr>grade_letter = ''Invalid'', point = 0\<rparr>
      else
        let score = clamp_score v in
        if score \<ge> 95 then \<lparr>grade_letter = ''A'', point = 4\<rparr>
        else if score \<ge> 90 then \<lparr>grade_letter = ''A-'', point = 11 / 3\<rparr>
        else if score \<ge> 85 then \<lparr>grade_letter = ''B+'', point = 10 / 3\<rparr>
        else if score \<ge> 80 then \<lparr>grade_letter = ''B'', point = 3\<rparr>
        else if score \<ge> 75 then \<lparr>grade_letter = ''B-'', point = 8 / 3\<rparr>
        else if score \<ge> 70 then \<lparr>grade_letter = ''C+'', point = 7 / 3\<rparr>
        else if score \<ge> 65 then \<lparr>grade_letter = ''C'', point = 2\<rparr>
        else if score \<ge> 60 then \<lparr>grade_letter = ''C-'', point = 5 / 3\<rparr>
        else \<lparr>grade_letter = ''F'', point = 0\<rparr>)"

text \<open>
  The object literal \<^verbatim>\<open>gradePoints\<close> of \<^verbatim>\<open>mapLetterToGradePoint\<close>: its own properties.
\<close>

definition gradePoints :: "(string \<times> rat) list" where
  "gradePoints =
     [(''A'', 4), (''A-'', 11 / 3), (''B+'', 10 / 3), (''B'', 3), (''B-'', 8 / 3),
      (''C+'', 7 / 3), (''C'', 2), (''C-'', 5 / 3), (''F'', 0)]"

text \<open>
  An object literal inherits from \<^verbatim>\<open>Object.prototype\<close>, and \<^verbatim>\<open>obj[key]\<close> walks the
  prototype chain. These are the property names of \<^verbatim>\<open>Object.prototype\<close> in ECMAScript
  (with its Annex B).
\<close>

definition object_prototype_names :: "string list" where
  "object_prototype_names =
     [''constructor'', ''hasOwnProperty'', ''isPrototypeOf'', ''propertyIsEnumerable'',
      ''toLocaleString'', ''toString'', ''valueOf'', ''__proto__'',
      ''__defineGetter__'', ''__defineSetter__'', ''__lookupGetter__'', ''__lookupSetter__'']"

text \<open>\<^verbatim>\<open>gradePoints[letter]\<close>: an own property, else an inherited one, else undefined.\<close>

definition gradePoints_get :: "string \<Rightarrow> js_value" where
  "gradePoints_get k =
     (case map_of gradePoints k of
        Some p \<Rightarrow> JNumber p
      | None \<Rightarrow> if k \<in> set object_prototype_names then JInherited k else JUndefined)"

text \<open>\<^verbatim>\<open>a ?? b\<close>\<close>

definition nullish :: "js_value \<Rightarrow> js_value \<Rightarrow> js_value" where
  "nullish a b = (if a = JUndefined \<or> a = JNull then b else a)"

definition mapLetterToGradePoint :: "string \<Rightarrow> js_value" where
  "mapLetterToGradePoint l = nullish (gradePoints_get l) (JNumber 0)"

definition getLetterFromPoint :: "rat \<Rightarrow> string" where
  "getLetterFromPoint p =
     (if p \<ge> 4 then ''A''
      else if p \<ge> 366 / 100 then ''A-''
      else if p \<ge> 333 / 100 then ''B+''
      else if p \<ge> 3 then ''B''
      else if p \<ge> 266 / 100 then ''B-''
      else if p \<ge> 233 / 100 then ''C+''
      else if p \<ge> 2 then ''C''
      else if p \<ge> 167 / 100 then ''C-''
      else ''F'')"

text \<open>The nine letters of the grading scale and their nine grade points.\<close>

definition valid_letters :: "string list" where
  "valid_letters = [''A'', ''A-'', ''B+'', ''B'', ''B-'', ''C+'', ''C'', ''C-'', ''F'']"

definition canonical_points :: "rat set" where
  "canonical_points = {0, 5 / 3, 2, 7 / 3, 8 / 3, 3, 10 / 3, 11 / 3, 4}"

subsection \<open>Term aggregator\<close>

text \<open>
  A course object as \<^verbatim>\<open>collectCourseData\<close> builds it: nine properties. \<^verbatim>\<open>id\<close> is
  \<open>course_id\<close> here. \<^verbatim>\<open>score\<close> is null, NaN or a number.
\<close>

record course =
  course_id :: string
  name :: string
  credits :: rat
  score :: js_value
  gradePoint :: rat
  letter :: string
  excluded :: bool
  repeated :: bool
  gradeType :: string

text \<open>
  A processed course: the spread \<^verbatim>\<open>...course\<close> and the properties the loop adds. The
  branch of an excluded course adds \<^verbatim>\<open>qualityPoints\<close> and \<^verbatim>\<open>status\<close> only, so
  \<^verbatim>\<open>wasCapped\<close> is absent there: \<open>None\<close>.
\<close>

record processed_course = course +
  qualityPoints :: rat
  status :: string
  wasCapped :: "bool option"

definition process_excluded :: "course \<Rightarrow> processed_course" where
  "process_excluded c =
     course.extend c
       (processed_course.fields 0 ''excluded'' None)"

definition process_included :: "course \<Rightarrow> processed_course" where
  "process_included c =
     (let capped = (repeated c \<and> gradePoint c > 333 / 100);
          gradePoint' = (if capped then 333 / 100 else gradePoint c);
          letter' = (if capped then ''B+'' else letter c);
          wasCapped' = capped;
          qualityPoints' = credits c * gradePoint'
      in course.extend (c\<lparr>gradePoint := gradePoint', letter := letter'\<rparr>)
           (processed_course.fields qualityPoints'
              (if wasCapped' then ''capped'' else ''included'') (Some wasCapped')))"

text \<open>
  The \<^verbatim>\<open>for ... of\<close> loop, on the state \<open>(totalCredits, totalQualityPoints,
  processedCourses)\<close>; \<^verbatim>\<open>push\<close> appends.
\<close>

fun term_loop ::
  "course list \<Rightarrow> rat \<times> rat \<times> processed_course list \<Rightarrow> rat \<times> rat \<times> processed_course list"
where
  "term_loop [] st = st"
| "term_loop (c # cs) (tc, tq, pcs) =
     (if excluded c then term_loop cs (tc, tq, pcs @ [process_excluded c])
      else
        let pc = process_included c
        in term_loop cs (tc + credits c, tq + qualityPoints pc, pcs @ [pc]))"

record term_result =
  gpa :: js_value
  totalCredits :: rat
  totalQualityPoints :: rat
  courses :: "processed_course list"

definition computeTermGPA :: "course list \<Rightarrow> term_result" where
  "computeTermGPA courseRows =
     (case term_loop courseRows (0, 0, []) of
        (tc, tq, pcs) \<Rightarrow>
          \<lparr>gpa = (if tc > 0 then js_divide tq tc else JNumber 0),
           totalCredits = tc,
           totalQualityPoints = tq,
           courses = pcs\<rparr>)"

subsection \<open>Cumulative combiner\<close>

text \<open>
  The object \<^verbatim>\<open>computeNewCGPA\<close> returns; its properties \<^verbatim>\<open>totalCredits\<close> and
  \<^verbatim>\<open>totalQualityPoints\<close> are \<open>newTotalCredits\<close> and \<open>newTotalQualityPoints\<close> here, after
  the local constants they are read from.
\<close>

record cgpa_result =
  cgpa :: js_value
  newTotalCredits :: rat
  newTotalQualityPoints :: rat
  prevQualityPoints :: rat

text \<open>
  The fifth parameter has the default \<^verbatim>\<open>null\<close>, which JavaScript takes when the
  argument is omitted or undefined: \<open>None\<close> is an omitted, undefined or null argument,
  \<open>Some q\<close> the number \<open>q\<close>.
\<close>

definition computeNewCGPA :: "rat \<Rightarrow> rat \<Rightarrow> rat \<Rightarrow> rat \<Rightarrow> rat option \<Rightarrow> cgpa_result" where
  "computeNewCGPA prevCGPA prevCredits termQualityPoints termCredits explicitPrevQP =
     (let calculatedPrevQP =
            (case explicitPrevQP of Some q \<Rightarrow> q | None \<Rightarrow> prevCGPA * prevCredits);
          totalQP = calculatedPrevQP + termQualityPoints;
          totalCr = prevCredits + termCredits;
          c = (if totalCr > 0 then js_divide totalQP totalCr else JNumber 0)
      in \<lparr>cgpa = c,
          newTotalCredits = totalCr,
          newTotalQualityPoints = totalQP,
          prevQualityPoints = calculatedPrevQP\<rparr>)"

subsection \<open>Auxiliary definitions of the verification\<close>

text \<open>The grade point that \<open>mapNumericToGradePoint\<close> gives a finite score.\<close>

definition point_of_score :: "rat \<Rightarrow> rat" where
  "point_of_score x = point (mapNumericToGradePoint (JNumber x))"

text \<open>The record that one pass of the loop of \<open>computeTermGPA\<close> pushes.\<close>

definition process_course :: "course \<Rightarrow> processed_course" where
  "process_course c = (if excluded c then process_excluded c else process_included c)"

text \<open>
  Concrete course objects. The first is the course of the README's third test: 3 credits
  at score 98, marked as repeated; its letter and grade point are those the numeric mapper
  resolves. The others were entered by letter, so their score is null.
\<close>

definition repeated_score_98 :: course where
  "repeated_score_98 =
     \<lparr>course_id = ''1'', name = ''Course 1'', credits = 3, score = JNumber 98,
      gradePoint = point (mapNumericToGradePoint (JNumber 98)),
      letter = grade_letter (mapNumericToGradePoint (JNumber 98)),
      excluded = False, repeated = True, gradeType = ''numeric''\<rparr>"

definition repeated_B_plus :: course where
  "repeated_B_plus =
     \<lparr>course_id = ''2'', name = ''Course 2'', credits = 3, score = JNull,
      gradePoint = 10 / 3, letter = ''B+'',
      excluded = False, repeated = True, gradeType = ''letter''\<rparr>"

definition repeated_A_minus :: course where
  "repeated_A_minus =
     \<lparr>course_id = ''3'', name = ''Course 3'', credits = 3, score = JNull,
      gradePoint = 11 / 3, letter = ''A-'',
      excluded = False, repeated = True, gradeType = ''letter''\<rparr>"

definition repeated_C :: course where
  "repeated_C =
     \<lparr>course_id = ''4'', name = ''Course 4'', credits = 4, score = JNull,
      gradePoint = 2, letter = ''C'',
      excluded = False, repeated = True, gradeType = ''letter''\<rparr>"

definition excluded_A :: course where
  "excluded_A =
     \<lparr>course_id = ''5'', name = ''Course 5'', credits = 3, score = JNull,
      gradePoint = 4, letter = ''A'',
      excluded = True, repeated = True, gradeType = ''letter''\<rparr>"

section \<open>Properties of the numeric mapper\<close>

lemma clamp_ge:
  fixes c x :: rat
  assumes "0 < c" and "c \<le> 100"
  shows "(c \<le> max 0 (min 100 x)) = (c \<le> x)"
  using assms by (auto simp: min_def max_def)

text \<open>On a finite score the clamp changes no comparison with a threshold.\<close>

lemma mapNumeric_finite:
  "mapNumericToGradePoint (JNumber x) =
     (if x \<ge> 95 then \<lparr>grade_letter = ''A'', point = 4\<rparr>
      else if x \<ge> 90 then \<lparr>grade_letter = ''A-'', point = 11 / 3\<rparr>
      else if x \<ge> 85 then \<lparr>grade_letter = ''B+'', point = 10 / 3\<rparr>
      else if x \<ge> 80 then \<lparr>grade_letter = ''B'', point = 3\<rparr>
      else if x \<ge> 75 then \<lparr>grade_letter = ''B-'', point = 8 / 3\<rparr>
      else if x \<ge> 70 then \<lparr>grade_letter = ''C+'', point = 7 / 3\<rparr>
      else if x \<ge> 65 then \<lparr>grade_letter = ''C'', point = 2\<rparr>
      else if x \<ge> 60 then \<lparr>grade_letter = ''C-'', point = 5 / 3\<rparr>
      else \<lparr>grade_letter = ''F'', point = 0\<rparr>)"
  unfolding mapNumericToGradePoint_def Let_def clamp_score.simps
  by (simp add: clamp_ge isNaN_def)

lemma mapNumeric_clamp:
  "mapNumericToGradePoint (JNumber (max 0 (min 100 x))) = mapNumericToGradePoint (JNumber x)"
  unfolding mapNumeric_finite [of "max 0 (min 100 x)"] mapNumeric_finite [of x]
  by (simp add: clamp_ge)

lemma mapNumeric_intervals:
  "(95 \<le> x \<longrightarrow> mapNumericToGradePoint (JNumber x) = \<lparr>grade_letter = ''A'', point = 4\<rparr>) \<and>
   (90 \<le> x \<and> x < 95 \<longrightarrow>
      mapNumericToGradePoint (JNumber x) = \<lparr>grade_letter = ''A-'', point = 11 / 3\<rparr>) \<and>
   (85 \<le> x \<and> x < 90 \<longrightarrow>
      mapNumericToGradePoint (JNumber x) = \<lparr>grade_letter = ''B+'', point = 10 / 3\<rparr>) \<and>
   (80 \<le> x \<and> x < 85 \<longrightarrow>
      mapNumericToGradePoint (JNumber x) = \<lparr>grade_letter = ''B'', point = 3\<rparr>) \<and>
   (75 \<le> x \<and> x < 80 \<longrightarrow>
      mapNumericToGradePoint (JNumber x) = \<lparr>grade_letter = ''B-'', point = 8 / 3\<rparr>) \<and>
   (70 \<le> x \<and> x < 75 \<longrightarrow>
      mapNumericToGradePoint (JNumber x) = \<lparr>grade_letter = ''C+'', point = 7 / 3\<rparr>) \<and>
   (65 \<le> x \<and> x < 70 \<longrightarrow>
      mapNumericToGradePoint (JNumber x) = \<lparr>grade_letter = ''C'', point = 2\<rparr>) \<and>
   (60 \<le> x \<and> x < 65 \<longrightarrow>
      mapNumericToGradePoint (JNumber x) = \<lparr>grade_letter = ''C-'', point = 5 / 3\<rparr>) \<and>
   (x < 60 \<longrightarrow> mapNumericToGradePoint (JNumber x) = \<lparr>grade_letter = ''F'', point = 0\<rparr>)"
  by (simp add: mapNumeric_finite)

lemma point_of_score_bounds:
  "(95 \<le> x \<longrightarrow> point_of_score x = 4) \<and>
   (90 \<le> x \<and> x < 95 \<longrightarrow> point_of_score x = 11 / 3) \<and>
   (85 \<le> x \<and> x < 90 \<longrightarrow> point_of_score x = 10 / 3) \<and>
   (80 \<le> x \<and> x < 85 \<longrightarrow> point_of_score x = 3) \<and>
   (75 \<le> x \<and> x < 80 \<longrightarrow> point_of_score x = 8 / 3) \<and>
   (70 \<le> x \<and> x < 75 \<longrightarrow> point_of_score x = 7 / 3) \<and>
   (65 \<le> x \<and> x < 70 \<longrightarrow> point_of_score x = 2) \<and>
   (60 \<le> x \<and> x < 65 \<longrightarrow> point_of_score x = 5 / 3) \<and>
   (x < 60 \<longrightarrow> point_of_score x = 0)"
  by (simp add: point_of_score_def mapNumeric_finite)

lemma point_of_score_lower:
  "(95 \<le> y \<longrightarrow> 4 \<le> point_of_score y) \<and>
   (90 \<le> y \<longrightarrow> 11 / 3 \<le> point_of_score y) \<and>
   (85 \<le> y \<longrightarrow> 10 / 3 \<le> point_of_score y) \<and>
   (80 \<le> y \<longrightarrow> 3 \<le> point_of_score y) \<and>
   (75 \<le> y \<longrightarrow> 8 / 3 \<le> point_of_score y) \<and>
   (70 \<le> y \<longrightarrow> 7 / 3 \<le> point_of_score y) \<and>
   (65 \<le> y \<longrightarrow> 2 \<le> point_of_score y) \<and>
   (60 \<le> y \<longrightarrow> 5 / 3 \<le> point_of_score y) \<and>
   0 \<le> point_of_score y"
  by (simp add: point_of_score_def mapNumeric_finite)

text \<open>Monotonicity: one case for each interval of the lower score.\<close>

lemma point_of_score_mono:
  assumes "x \<le> y"
  shows "point_of_score x \<le> point_of_score y"
proof -
  note facts = assms point_of_score_bounds [of x] point_of_score_lower [of y]
  consider "95 \<le> x" | "90 \<le> x" "x < 95" | "85 \<le> x" "x < 90" | "80 \<le> x" "x < 85"
    | "75 \<le> x" "x < 80" | "70 \<le> x" "x < 75" | "65 \<le> x" "x < 70" | "60 \<le> x" "x < 65"
    | "x < 60"
    by linarith
  then show ?thesis
  proof cases
    case 1 with facts show ?thesis by simp
  next
    case 2 with facts show ?thesis by simp
  next
    case 3 with facts show ?thesis by simp
  next
    case 4 with facts show ?thesis by simp
  next
    case 5 with facts show ?thesis by simp
  next
    case 6 with facts show ?thesis by simp
  next
    case 7 with facts show ?thesis by simp
  next
    case 8 with facts show ?thesis by simp
  next
    case 9 with facts show ?thesis by simp
  qed
qed

lemma mapNumeric_infinities:
  "mapNumericToGradePoint JPosInfinity = mapNumericToGradePoint (JNumber 100) \<and>
   mapNumericToGradePoint JNegInfinity = mapNumericToGradePoint (JNumber 0)"
  by (simp add: mapNumericToGradePoint_def isNaN_def)

text \<open>
  Claim C4. \<open>mapNumericToGradePoint\<close> clamps a numeric score to \<open>[0, 100]\<close> (a score and
  its clamped value get the same grade, and the infinities get the grades of 100 and 0)
  and applies the table with inclusive lower bounds: \<open>[95,100]\<close> gives A = 4, \<open>[90,95)\<close>
  A- = 11/3, \<open>[85,90)\<close> B+ = 10/3, \<open>[80,85)\<close> B = 3, \<open>[75,80)\<close> B- = 8/3, \<open>[70,75)\<close>
  C+ = 7/3, \<open>[65,70)\<close> C = 2, \<open>[60,65)\<close> C- = 5/3, \<open>[0,60)\<close> F = 0. The grade point is
  monotone non-decreasing in the score, and the letter changes exactly at 60, 65, 70, 75,
  80, 85, 90 and 95.
\<close>

theorem mapNumericToGradePoint_table:
  "(95 \<le> x \<longrightarrow> mapNumericToGradePoint (JNumber x) = \<lparr>grade_letter = ''A'', point = 4\<rparr>) \<and>
   (90 \<le> x \<and> x < 95 \<longrightarrow>
      mapNumericToGradePoint (JNumber x) = \<lparr>grade_letter = ''A-'', point = 11 / 3\<rparr>) \<and>
   (85 \<le> x \<and> x < 90 \<longrightarrow>
      mapNumericToGradePoint (JNumber x) = \<lparr>grade_letter = ''B+'', point = 10 / 3\<rparr>) \<and>
   (80 \<le> x \<and> x < 85 \<longrightarrow>
      mapNumericToGradePoint (JNumber x) = \<lparr>grade_letter = ''B'', point = 3\<rparr>) \<and>
   (75 \<le> x \<and> x < 80 \<longrightarrow>
      mapNumericToGradePoint (JNumber x) = \<lparr>grade_letter = ''B-'', point = 8 / 3\<rparr>) \<and>
   (70 \<le> x \<and> x < 75 \<longrightarrow>
      mapNumericToGradePoint (JNumber x) = \<lparr>grade_letter = ''C+'', point = 7 / 3\<rparr>) \<and>
   (65 \<le> x \<and> x < 70 \<longrightarrow>
      mapNumericToGradePoint (JNumber x) = \<lparr>grade_letter = ''C'', point = 2\<rparr>) \<and>
   (60 \<le> x \<and> x < 65 \<longrightarrow>
      mapNumericToGradePoint (JNumber x) = \<lparr>grade_letter = ''C-'', point = 5 / 3\<rparr>) \<and>
   (x < 60 \<longrightarrow> mapNumericToGradePoint (JNumber x) = \<lparr>grade_letter = ''F'', point = 0\<rparr>) \<and>
   mapNumericToGradePoint (JNumber x) = mapNumericToGradePoint (JNumber (max 0 (min 100 x))) \<and>
   mapNumericToGradePoint JPosInfinity = mapNumericToGradePoint (JNumber 100) \<and>
   mapNumericToGradePoint JNegInfinity = mapNumericToGradePoint (JNumber 0) \<and>
   (x \<le> y \<longrightarrow>
      point (mapNumericToGradePoint (JNumber x)) \<le> point (mapNumericToGradePoint (JNumber y)))"
proof -
  have mono: "x \<le> y \<longrightarrow>
      point (mapNumericToGradePoint (JNumber x)) \<le> point (mapNumericToGradePoint (JNumber y))"
    using point_of_score_mono [of x y] by (simp add: point_of_score_def)
  from mapNumeric_intervals [of x] mapNumeric_clamp [of x, symmetric] mapNumeric_infinities mono
  show ?thesis by blast
qed

theorem mapNumericToGradePoint_table_witness:
  "map (\<lambda>s. grade_letter (mapNumericToGradePoint (JNumber s)))
       [59, 60, 64, 65, 69, 70, 74, 75, 79, 80, 84, 85, 89, 90, 94, 95]
     = [''F'', ''C-'', ''C-'', ''C'', ''C'', ''C+'', ''C+'', ''B-'', ''B-'', ''B'', ''B'',
        ''B+'', ''B+'', ''A-'', ''A-'', ''A'']
   \<and> point (mapNumericToGradePoint (JNumber 94)) \<le> point (mapNumericToGradePoint (JNumber 95))
   \<and> mapNumericToGradePoint (JNumber 120) = mapNumericToGradePoint (JNumber 100)
   \<and> mapNumericToGradePoint (JNumber (- 5)) = mapNumericToGradePoint (JNumber 0)"
proof -
  have "(59::rat) < 60 \<longrightarrow>
      mapNumericToGradePoint (JNumber 59) = \<lparr>grade_letter = ''F'', point = 0\<rparr>"
    using mapNumericToGradePoint_table [of 59 59] by blast
  then have g59: "mapNumericToGradePoint (JNumber 59) = \<lparr>grade_letter = ''F'', point = 0\<rparr>"
    by simp
  have "60 \<le> (60::rat) \<and> (60::rat) < 65 \<longrightarrow>
      mapNumericToGradePoint (JNumber 60) = \<lparr>grade_letter = ''C-'', point = 5 / 3\<rparr>"
    using mapNumericToGradePoint_table [of 60 60] by blast
  then have g60: "mapNumericToGradePoint (JNumber 60) = \<lparr>grade_letter = ''C-'', point = 5 / 3\<rparr>"
    by simp
  have "60 \<le> (64::rat) \<and> (64::rat) < 65 \<longrightarrow>
      mapNumericToGradePoint (JNumber 64) = \<lparr>grade_letter = ''C-'', point = 5 / 3\<rparr>"
    using mapNumericToGradePoint_table [of 64 64] by blast
  then have g64: "mapNumericToGradePoint (JNumber 64) = \<lparr>grade_letter = ''C-'', point = 5 / 3\<rparr>"
    by simp
  have "65 \<le> (65::rat) \<and> (65::rat) < 70 \<longrightarrow>
      mapNumericToGradePoint (JNumber 65) = \<lparr>grade_letter = ''C'', point = 2\<rparr>"
    using mapNumericToGradePoint_table [of 65 65] by blast
  then have g65: "mapNumericToGradePoint (JNumber 65) = \<lparr>grade_letter = ''C'', point = 2\<rparr>"
    by simp
  have "65 \<le> (69::rat) \<and> (69::rat) < 70 \<longrightarrow>
      mapNumericToGradePoint (JNumber 69) = \<lparr>grade_letter = ''C'', point = 2\<rparr>"
    using mapNumericToGradePoint_table [of 69 69] by blast
  then have g69: "mapNumericToGradePoint (JNumber 69) = \<lparr>grade_letter = ''C'', point = 2\<rparr>"
    by simp
  have "70 \<le> (70::rat) \<and> (70::rat) < 75 \<longrightarrow>
      mapNumericToGradePoint (JNumber 70) = \<lparr>grade_letter = ''C+'', point = 7 / 3\<rparr>"
    using mapNumericToGradePoint_table [of 70 70] by blast
  then have g70: "mapNumericToGradePoint (JNumber 70) = \<lparr>grade_letter = ''C+'', point = 7 / 3\<rparr>"
    by simp
  have "70 \<le> (74::rat) \<and> (74::rat) < 75 \<longrightarrow>
      mapNumericToGradePoint (JNumber 74) = \<lparr>grade_letter = ''C+'', point = 7 / 3\<rparr>"
    using mapNumericToGradePoint_table [of 74 74] by blast
  then have g74: "mapNumericToGradePoint (JNumber 74) = \<lparr>grade_letter = ''C+'', point = 7 / 3\<rparr>"
    by simp
  have "75 \<le> (75::rat) \<and> (75::rat) < 80 \<longrightarrow>
      mapNumericToGradePoint (JNumber 75) = \<lparr>grade_letter = ''B-'', point = 8 / 3\<rparr>"
    using mapNumericToGradePoint_table [of 75 75] by blast
  then have g75: "mapNumericToGradePoint (JNumber 75) = \<lparr>grade_letter = ''B-'', point = 8 / 3\<rparr>"
    by simp
  have "75 \<le> (79::rat) \<and> (79::rat) < 80 \<longrightarrow>
      mapNumericToGradePoint (JNumber 79) = \<lparr>grade_letter = ''B-'', point = 8 / 3\<rparr>"
    using mapNumericToGradePoint_table [of 79 79] by blast
  then have g79: "mapNumericToGradePoint (JNumber 79) = \<lparr>grade_letter = ''B-'', point = 8 / 3\<rparr>"
    by simp
  have "80 \<le> (80::rat) \<and> (80::rat) < 85 \<longrightarrow>
      mapNumericToGradePoint (JNumber 80) = \<lparr>grade_letter = ''B'', point = 3\<rparr>"
    using mapNumericToGradePoint_table [of 80 80] by blast
  then have g80: "mapNumericToGradePoint (JNumber 80) = \<lparr>grade_letter = ''B'', point = 3\<rparr>"
    by simp
  have "80 \<le> (84::rat) \<and> (84::rat) < 85 \<longrightarrow>
      mapNumericToGradePoint (JNumber 84) = \<lparr>grade_letter = ''B'', point = 3\<rparr>"
    using mapNumericToGradePoint_table [of 84 84] by blast
  then have g84: "mapNumericToGradePoint (JNumber 84) = \<lparr>grade_letter = ''B'', point = 3\<rparr>"
    by simp
  have "85 \<le> (85::rat) \<and> (85::rat) < 90 \<longrightarrow>
      mapNumericToGradePoint (JNumber 85) = \<lparr>grade_letter = ''B+'', point = 10 / 3\<rparr>"
    using mapNumericToGradePoint_table [of 85 85] by blast
  then have g85: "mapNumericToGradePoint (JNumber 85) = \<lparr>grade_letter = ''B+'', point = 10 / 3\<rparr>"
    by simp
  have "85 \<le> (89::rat) \<and> (89::rat) < 90 \<longrightarrow>
      mapNumericToGradePoint (JNumber 89) = \<lparr>grade_letter = ''B+'', point = 10 / 3\<rparr>"
    using mapNumericToGradePoint_table [of 89 89] by blast
  then have g89: "mapNumericToGradePoint (JNumber 89) = \<lparr>grade_letter = ''B+'', point = 10 / 3\<rparr>"
    by simp
  have "90 \<le> (90::rat) \<and> (90::rat) < 95 \<longrightarrow>
      mapNumericToGradePoint (JNumber 90) = \<lparr>grade_letter = ''A-'', point = 11 / 3\<rparr>"
    using mapNumericToGradePoint_table [of 90 90] by blast
  then have g90: "mapNumericToGradePoint (JNumber 90) = \<lparr>grade_letter = ''A-'', point = 11 / 3\<rparr>"
    by simp
  have "90 \<le> (94::rat) \<and> (94::rat) < 95 \<longrightarrow>
      mapNumericToGradePoint (JNumber 94) = \<lparr>grade_letter = ''A-'', point = 11 / 3\<rparr>"
    using mapNumericToGradePoint_table [of 94 94] by blast
  then have g94: "mapNumericToGradePoint (JNumber 94) = \<lparr>grade_letter = ''A-'', point = 11 / 3\<rparr>"
    by simp
  have "95 \<le> (95::rat) \<longrightarrow>
      mapNumericToGradePoint (JNumber 95) = \<lparr>grade_letter = ''A'', point = 4\<rparr>"
    using mapNumericToGradePoint_table [of 95 95] by blast
  then have g95: "mapNumericToGradePoint (JNumber 95) = \<lparr>grade_letter = ''A'', point = 4\<rparr>"
    by simp
  have "(94::rat) \<le> 95 \<longrightarrow>
      point (mapNumericToGradePoint (JNumber 94)) \<le> point (mapNumericToGradePoint (JNumber 95))"
    using mapNumericToGradePoint_table [of 94 95] by blast
  then have m: "point (mapNumericToGradePoint (JNumber 94)) \<le> point (mapNumericToGradePoint (JNumber 95))"
    by simp
  have "mapNumericToGradePoint (JNumber 120) = mapNumericToGradePoint (JNumber (max 0 (min 100 120)))"
    using mapNumericToGradePoint_table [of 120 120] by blast
  then have hi: "mapNumericToGradePoint (JNumber 120) = mapNumericToGradePoint (JNumber 100)"
    by simp
  have "mapNumericToGradePoint (JNumber (- 5)) =
      mapNumericToGradePoint (JNumber (max 0 (min 100 (- 5))))"
    using mapNumericToGradePoint_table [of "- 5" 0] by blast
  then have lo: "mapNumericToGradePoint (JNumber (- 5)) = mapNumericToGradePoint (JNumber 0)"
    by simp
  show ?thesis
    unfolding list.map g59 g60 g64 g65 g69 g70 g74 g75 g79 g80 g84 g85 g89 g90 g94 g95
    using m hi lo by simp
qed

section \<open>Properties of the letter mapper and of its display inverse\<close>

lemmas letter_lookup_defs =
  mapLetterToGradePoint_def gradePoints_get_def gradePoints_def object_prototype_names_def
  nullish_def

lemma valid_letters_cases:
  "l \<in> set valid_letters \<longleftrightarrow>
     l = ''A'' \<or> l = ''A-'' \<or> l = ''B+'' \<or> l = ''B'' \<or> l = ''B-'' \<or> l = ''C+'' \<or>
     l = ''C'' \<or> l = ''C-'' \<or> l = ''F''"
  unfolding valid_letters_def by (simp only: list.set insert_iff empty_iff simp_thms)

lemma own_names: "map fst gradePoints = valid_letters"
  by (simp add: gradePoints_def valid_letters_def)

text \<open>The table on the nine letters, and three times each grade point.\<close>

lemma mapLetter_table:
  "map mapLetterToGradePoint valid_letters =
     [JNumber 4, JNumber (11 / 3), JNumber (10 / 3), JNumber 3, JNumber (8 / 3),
      JNumber (7 / 3), JNumber 2, JNumber (5 / 3), JNumber 0]"
  by (simp add: valid_letters_def letter_lookup_defs)

lemma mapLetter_times_3:
  "map (\<lambda>l. case mapLetterToGradePoint l of JNumber p \<Rightarrow> p * 3 | _ \<Rightarrow> - 1) valid_letters =
     [12, 11, 10, 9, 8, 7, 6, 5, 0]"
  by (simp add: valid_letters_def letter_lookup_defs)

lemma mapLetter_canonical:
  assumes "l \<in> set valid_letters"
  shows "\<exists>p \<in> canonical_points. mapLetterToGradePoint l = JNumber p"
  using assms unfolding valid_letters_cases
  by (elim disjE) (simp_all add: letter_lookup_defs canonical_points_def)

text \<open>
  A string that is neither one of the nine letters nor a property name of
  \<open>Object.prototype\<close> gets 0; the empty string is one.
\<close>

lemma mapLetter_unknown:
  assumes "l \<notin> set valid_letters" and "l \<notin> set object_prototype_names"
  shows "mapLetterToGradePoint l = JNumber 0"
proof -
  have "l \<notin> fst ` set gradePoints"
    using assms(1) own_names by (metis list.set_map)
  then have "map_of gradePoints l = None"
    by (simp only: map_of_eq_None_iff not_False_eq_True)
  with assms(2) show ?thesis
    by (simp add: mapLetterToGradePoint_def gradePoints_get_def nullish_def)
qed

lemma mapLetter_empty: "mapLetterToGradePoint [] = JNumber 0"
  by (simp add: letter_lookup_defs)

text \<open>
  Claim C8. The table (A = 4, A- = 11/3, B+ = 10/3, B = 3, B- = 8/3, C+ = 7/3, C = 2,
  C- = 5/3, F = 0) and the integers 12, 11, 10, 9, 8, 7, 6, 5, 0 hold (lemmas
  \<open>mapLetter_table\<close> and \<open>mapLetter_times_3\<close>), and the empty string gets 0. But not every
  unknown letter gets 0: \<^verbatim>\<open>gradePoints[letter]\<close> finds the properties that the object
  literal inherits, so for \<^verbatim>\<open>'constructor'\<close> the nullish default does not apply and the
  function returns the inherited value, which is not a number.
\<close>

theorem mapLetterToGradePoint_inherited_name:
  "''constructor'' \<notin> set valid_letters \<and>
   mapLetterToGradePoint ''constructor'' = JInherited ''constructor'' \<and>
   mapLetterToGradePoint ''constructor'' \<noteq> JNumber 0"
  by (simp add: valid_letters_def letter_lookup_defs)

lemma getLetterFromPoint_intervals:
  "(4 \<le> p \<longrightarrow> getLetterFromPoint p = ''A'') \<and>
   (366 / 100 \<le> p \<and> p < 4 \<longrightarrow> getLetterFromPoint p = ''A-'') \<and>
   (333 / 100 \<le> p \<and> p < 366 / 100 \<longrightarrow> getLetterFromPoint p = ''B+'') \<and>
   (3 \<le> p \<and> p < 333 / 100 \<longrightarrow> getLetterFromPoint p = ''B'') \<and>
   (266 / 100 \<le> p \<and> p < 3 \<longrightarrow> getLetterFromPoint p = ''B-'') \<and>
   (233 / 100 \<le> p \<and> p < 266 / 100 \<longrightarrow> getLetterFromPoint p = ''C+'') \<and>
   (2 \<le> p \<and> p < 233 / 100 \<longrightarrow> getLetterFromPoint p = ''C'') \<and>
   (167 / 100 \<le> p \<and> p < 2 \<longrightarrow> getLetterFromPoint p = ''C-'') \<and>
   (p < 167 / 100 \<longrightarrow> getLetterFromPoint p = ''F'')"
  by (simp add: getLetterFromPoint_def)

lemma round_trip_eight:
  assumes "l \<in> set valid_letters" and "l \<noteq> ''C-''"
  shows "\<exists>p. mapLetterToGradePoint l = JNumber p \<and> getLetterFromPoint p = l"
proof -
  from assms consider "l = ''A''" | "l = ''A-''" | "l = ''B+''" | "l = ''B''" | "l = ''B-''" | "l = ''C+''" | "l = ''C''" | "l = ''F''"
    unfolding valid_letters_cases by blast
  then show ?thesis
  proof cases
    case 1
    then show ?thesis
      by (intro exI [of _ "4"]) (simp add: letter_lookup_defs getLetterFromPoint_def)
  next
    case 2
    then show ?thesis
      by (intro exI [of _ "11 / 3"]) (simp add: letter_lookup_defs getLetterFromPoint_def)
  next
    case 3
    then show ?thesis
      by (intro exI [of _ "10 / 3"]) (simp add: letter_lookup_defs getLetterFromPoint_def)
  next
    case 4
    then show ?thesis
      by (intro exI [of _ "3"]) (simp add: letter_lookup_defs getLetterFromPoint_def)
  next
    case 5
    then show ?thesis
      by (intro exI [of _ "8 / 3"]) (simp add: letter_lookup_defs getLetterFromPoint_def)
  next
    case 6
    then show ?thesis
      by (intro exI [of _ "7 / 3"]) (simp add: letter_lookup_defs getLetterFromPoint_def)
  next
    case 7
    then show ?thesis
      by (intro exI [of _ "2"]) (simp add: letter_lookup_defs getLetterFromPoint_def)
  next
    case 8
    then show ?thesis
      by (intro exI [of _ "0"]) (simp add: letter_lookup_defs getLetterFromPoint_def)
  qed
qed

text \<open>
  Claim C9, as stated, fails at C-: its grade point 5/3 is below the threshold 1.67 of
  \<open>getLetterFromPoint\<close>, so the letter that comes back is F.
\<close>

theorem round_trip_C_minus_counterexample:
  "mapLetterToGradePoint ''C-'' = JNumber (5 / 3) \<and> getLetterFromPoint (5 / 3) = ''F'' \<and>
   getLetterFromPoint (5 / 3) \<noteq> ''C-''"
  by (simp add: letter_lookup_defs getLetterFromPoint_def)

text \<open>
  Claim C9, amended. \<open>getLetterFromPoint\<close> uses the non-strict thresholds 4.00 (A),
  3.66 (A-), 3.33 (B+), 3.00 (B), 2.66 (B-), 2.33 (C+), 2.00 (C), 1.67 (C-), else F, and
  for each of the eight valid letters other than C- the letter of the grade point of the
  letter is the letter itself.
\<close>

theorem round_trip_except_C_minus:
  "(l \<in> set valid_letters \<and> l \<noteq> ''C-'' \<longrightarrow>
      (\<exists>q. mapLetterToGradePoint l = JNumber q \<and> getLetterFromPoint q = l)) \<and>
   (4 \<le> p \<longrightarrow> getLetterFromPoint p = ''A'') \<and>
   (366 / 100 \<le> p \<and> p < 4 \<longrightarrow> getLetterFromPoint p = ''A-'') \<and>
   (333 / 100 \<le> p \<and> p < 366 / 100 \<longrightarrow> getLetterFromPoint p = ''B+'') \<and>
   (3 \<le> p \<and> p < 333 / 100 \<longrightarrow> getLetterFromPoint p = ''B'') \<and>
   (266 / 100 \<le> p \<and> p < 3 \<longrightarrow> getLetterFromPoint p = ''B-'') \<and>
   (233 / 100 \<le> p \<and> p < 266 / 100 \<longrightarrow> getLetterFromPoint p = ''C+'') \<and>
   (2 \<le> p \<and> p < 233 / 100 \<longrightarrow> getLetterFromPoint p = ''C'') \<and>
   (167 / 100 \<le> p \<and> p < 2 \<longrightarrow> getLetterFromPoint p = ''C-'') \<and>
   (p < 167 / 100 \<longrightarrow> getLetterFromPoint p = ''F'')"
  using round_trip_eight [of l] getLetterFromPoint_intervals [of p] by blast

theorem round_trip_except_C_minus_witness:
  "''A-'' \<in> set valid_letters \<and> ''A-'' \<noteq> ''C-'' \<and>
   (\<exists>q. mapLetterToGradePoint ''A-'' = JNumber q \<and> getLetterFromPoint q = ''A-'') \<and>
   getLetterFromPoint (11 / 3) = ''A-''"
proof -
  have v: "''A-'' \<in> set valid_letters \<and> ''A-'' \<noteq> ''C-''"
    by (simp add: valid_letters_def)
  have "''A-'' \<in> set valid_letters \<and> ''A-'' \<noteq> ''C-'' \<longrightarrow>
      (\<exists>q. mapLetterToGradePoint ''A-'' = JNumber q \<and> getLetterFromPoint q = ''A-'')"
    using round_trip_except_C_minus [of "''A-''" "11 / 3"] by blast
  with v have r: "\<exists>q. mapLetterToGradePoint ''A-'' = JNumber q \<and> getLetterFromPoint q = ''A-''"
    by blast
  have "366 / 100 \<le> (11 / 3 :: rat) \<and> (11 / 3 :: rat) < 4 \<longrightarrow>
      getLetterFromPoint (11 / 3) = ''A-''"
    using round_trip_except_C_minus [of "''A-''" "11 / 3"] by blast
  then have g: "getLetterFromPoint (11 / 3) = ''A-''"
    by simp
  from v r g show ?thesis by blast
qed

section \<open>Properties of the term aggregator\<close>

text \<open>The loop, from any state: the totals grow by the sums over the records that are not
  excluded, and one processed record is appended for each input record, in order.\<close>

lemma term_loop_eq:
  "term_loop cs (tc, tq, pcs) =
     (tc + (\<Sum>c\<leftarrow>filter (\<lambda>c. \<not> excluded c) cs. credits c),
      tq + (\<Sum>c\<leftarrow>filter (\<lambda>c. \<not> excluded c) cs. qualityPoints (process_included c)),
      pcs @ map process_course cs)"
  by (induction cs arbitrary: tc tq pcs) (simp_all add: process_course_def Let_def)

lemma computeTermGPA_courses: "courses (computeTermGPA cs) = map process_course cs"
  by (simp add: computeTermGPA_def term_loop_eq)

lemma computeTermGPA_totalCredits:
  "totalCredits (computeTermGPA cs) = (\<Sum>c\<leftarrow>filter (\<lambda>c. \<not> excluded c) cs. credits c)"
  by (simp add: computeTermGPA_def term_loop_eq)

lemma computeTermGPA_totalQualityPoints:
  "totalQualityPoints (computeTermGPA cs) =
     (\<Sum>c\<leftarrow>filter (\<lambda>c. \<not> excluded c) cs. qualityPoints (process_included c))"
  by (simp add: computeTermGPA_def term_loop_eq)

lemma computeTermGPA_gpa:
  "gpa (computeTermGPA cs) =
     (if totalCredits (computeTermGPA cs) > 0
      then js_divide (totalQualityPoints (computeTermGPA cs)) (totalCredits (computeTermGPA cs))
      else JNumber 0)"
  by (simp add: computeTermGPA_def term_loop_eq)

text \<open>The quotient is a finite number exactly when the divisor is not zero.\<close>

lemma js_divide_finite:
  "(b \<noteq> 0 \<longrightarrow> js_divide a b = JNumber (a / b)) \<and>
   (b = 0 \<longrightarrow> js_divide a b \<noteq> JNumber r)"
  by (simp add: js_divide_def)

lemma js_divide_by_zero:
  "js_divide 0 0 = JNaN \<and> js_divide 5 0 = JPosInfinity \<and> js_divide (- 5) 0 = JNegInfinity"
  by (simp add: js_divide_def)

lemmas process_defs =
  process_course_def process_excluded_def process_included_def Let_def
  course.defs processed_course.defs

text \<open>The input fields that no branch of the loop body writes.\<close>

lemma process_course_frame:
  "course_id (process_course c) = course_id c \<and> name (process_course c) = name c \<and>
   credits (process_course c) = credits c \<and> score (process_course c) = score c \<and>
   excluded (process_course c) = excluded c \<and> repeated (process_course c) = repeated c \<and>
   gradeType (process_course c) = gradeType c"
  by (simp add: process_defs)

lemma process_course_excluded:
  assumes "excluded c"
  shows "course.truncate (process_course c) = c \<and> qualityPoints (process_course c) = 0 \<and>
     status (process_course c) = ''excluded'' \<and> wasCapped (process_course c) = None"
  using assms by (cases c) (simp add: process_defs)

lemma process_course_not_capped:
  assumes "\<not> excluded c" and "\<not> (repeated c \<and> gradePoint c > 333 / 100)"
  shows "course.truncate (process_course c) = c \<and>
     qualityPoints (process_course c) = credits c * gradePoint c \<and>
     status (process_course c) = ''included'' \<and> wasCapped (process_course c) = Some False"
  using assms by (cases c; cases "repeated c") (simp_all add: process_defs)

lemma process_course_capped:
  assumes "\<not> excluded c" and "repeated c" and "gradePoint c > 333 / 100"
  shows "course.truncate (process_course c) = c\<lparr>gradePoint := 333 / 100, letter := ''B+''\<rparr> \<and>
     qualityPoints (process_course c) = credits c * (333 / 100) \<and>
     status (process_course c) = ''capped'' \<and> wasCapped (process_course c) = Some True"
  using assms by (cases c) (simp add: process_defs)

lemma process_course_included:
  assumes "\<not> excluded c"
  shows "qualityPoints (process_course c) = credits c * gradePoint (process_course c) \<and>
     (wasCapped (process_course c) = Some True \<or> wasCapped (process_course c) = Some False) \<and>
     (wasCapped (process_course c) = Some True \<longrightarrow>
        letter (process_course c) = ''B+'' \<and> status (process_course c) = ''capped'') \<and>
     (wasCapped (process_course c) = Some False \<longrightarrow>
        gradePoint (process_course c) = gradePoint c \<and> letter (process_course c) = letter c \<and>
        status (process_course c) = ''included'')"
  using assms by (simp add: process_defs)

lemma filter_process_course:
  "filter (\<lambda>p. \<not> excluded p) (map process_course cs) =
     map process_course (filter (\<lambda>c. \<not> excluded c) cs)"
  by (induction cs) (simp_all add: process_course_frame)

lemma totalQualityPoints_output:
  "totalQualityPoints (computeTermGPA cs) =
     (\<Sum>p\<leftarrow>filter (\<lambda>p. \<not> excluded p) (courses (computeTermGPA cs)). qualityPoints p)"
proof -
  have "map (\<lambda>c. qualityPoints (process_included c)) (filter (\<lambda>c. \<not> excluded c) cs) =
      map (\<lambda>c. qualityPoints (process_course c)) (filter (\<lambda>c. \<not> excluded c) cs)"
    by (intro map_ext) (simp add: process_course_def)
  then have "(\<Sum>c\<leftarrow>filter (\<lambda>c. \<not> excluded c) cs. qualityPoints (process_included c)) =
      (\<Sum>c\<leftarrow>filter (\<lambda>c. \<not> excluded c) cs. qualityPoints (process_course c))"
    by (rule arg_cong)
  then show ?thesis
    by (simp add: computeTermGPA_totalQualityPoints computeTermGPA_courses
        filter_process_course comp_def)
qed

lemma totals_without_excluded:
  "totalCredits (computeTermGPA (filter (\<lambda>c. \<not> excluded c) cs)) =
     totalCredits (computeTermGPA cs) \<and>
   totalQualityPoints (computeTermGPA (filter (\<lambda>c. \<not> excluded c) cs)) =
     totalQualityPoints (computeTermGPA cs) \<and>
   gpa (computeTermGPA (filter (\<lambda>c. \<not> excluded c) cs)) = gpa (computeTermGPA cs)"
  by (simp add: computeTermGPA_gpa computeTermGPA_totalCredits
      computeTermGPA_totalQualityPoints)

text \<open>
  Claim C1. The README's third test: 3 credits at score 98, resolved to A = 4, marked as
  repeated. The claim says the cap sets the grade point to 10/3 and the quality points
  to exactly 10. The code sets the letter to B+, \<open>wasCapped\<close> to true and the status to
  capped, but the grade point to the literal 3.33, so the quality points are 9.99.
\<close>

theorem repeat_cap_score_98:
  "gradePoint repeated_score_98 = 4 \<and> letter repeated_score_98 = ''A'' \<and>
   map letter (courses (computeTermGPA [repeated_score_98])) = [''B+''] \<and>
   map wasCapped (courses (computeTermGPA [repeated_score_98])) = [Some True] \<and>
   map status (courses (computeTermGPA [repeated_score_98])) = [''capped''] \<and>
   map gradePoint (courses (computeTermGPA [repeated_score_98])) = [333 / 100] \<and>
   map qualityPoints (courses (computeTermGPA [repeated_score_98])) = [999 / 100] \<and>
   totalQualityPoints (computeTermGPA [repeated_score_98]) = 999 / 100 \<and>
   (333 / 100 :: rat) \<noteq> 10 / 3 \<and> (999 / 100 :: rat) \<noteq> 10"
  by (simp add: computeTermGPA_def repeated_score_98_def mapNumeric_finite process_defs)

text \<open>What the cap does leave alone: a grade point of at most 3.33.\<close>

lemma repeated_C_unchanged:
  "courses (computeTermGPA [repeated_C]) =
     [course.extend repeated_C (processed_course.fields 8 ''included'' (Some False))]"
  by (simp add: computeTermGPA_def repeated_C_def process_defs)

text \<open>
  Claim C2. A repeated course with the letter B+ has the grade point 10/3, which the claim
  says the cap leaves unchanged, with \<open>wasCapped\<close> false and the status included. The code
  compares with 3.33, and 10/3 is above 3.33: the grade point becomes 3.33, \<open>wasCapped\<close>
  true and the status capped.
\<close>

theorem repeat_cap_B_plus:
  "mapLetterToGradePoint (letter repeated_B_plus) = JNumber (gradePoint repeated_B_plus) \<and>
   gradePoint repeated_B_plus \<le> 10 / 3 \<and>
   map gradePoint (courses (computeTermGPA [repeated_B_plus])) = [333 / 100] \<and>
   map wasCapped (courses (computeTermGPA [repeated_B_plus])) = [Some True] \<and>
   map status (courses (computeTermGPA [repeated_B_plus])) = [''capped''] \<and>
   map qualityPoints (courses (computeTermGPA [repeated_B_plus])) = [999 / 100] \<and>
   (333 / 100 :: rat) \<noteq> gradePoint repeated_B_plus"
  by (simp add: computeTermGPA_def repeated_B_plus_def letter_lookup_defs process_defs)

text \<open>Both mappers give canonical grade points, and a record that is not capped keeps
  its grade point.\<close>

lemma mapNumeric_canonical: "point (mapNumericToGradePoint v) \<in> canonical_points"
  by (simp add: mapNumericToGradePoint_def canonical_points_def Let_def)

lemma process_course_canonical:
  assumes "\<not> excluded c" and "gradePoint c \<in> canonical_points"
    and "wasCapped (process_course c) \<noteq> Some True"
  shows "gradePoint (process_course c) \<in> canonical_points"
  using assms by (cases "repeated c") (auto simp: process_defs)

text \<open>
  Claim C3. A repeated course with the letter A- has the canonical grade point 11/3 from
  the letter mapper. The claim says the grade point of the processed record is one of the
  nine canonical values; after the cap it is 3.33, which is none of them.
\<close>

theorem repeat_cap_not_canonical:
  "mapLetterToGradePoint (letter repeated_A_minus) = JNumber (gradePoint repeated_A_minus) \<and>
   gradePoint repeated_A_minus \<in> canonical_points \<and>
   map excluded (courses (computeTermGPA [repeated_A_minus])) = [False] \<and>
   map gradePoint (courses (computeTermGPA [repeated_A_minus])) = [333 / 100] \<and>
   (333 / 100 :: rat) \<notin> canonical_points"
  by (simp add: computeTermGPA_def repeated_A_minus_def letter_lookup_defs process_defs
      canonical_points_def)

text \<open>
  Claim C6. A record with \<open>excluded = true\<close> adds nothing to the totals, whatever its
  repeated flag, grade and credits: the totals are the sums over the records that are not
  excluded, and they are the totals of the list without its excluded records. The
  excluded record is still in the output, at its place, with its input fields,
  \<open>qualityPoints = 0\<close> and the status excluded.
\<close>

theorem excluded_contribute_nothing:
  "totalCredits (computeTermGPA cs) = (\<Sum>c\<leftarrow>filter (\<lambda>c. \<not> excluded c) cs. credits c) \<and>
   totalCredits (computeTermGPA cs) =
     (\<Sum>p\<leftarrow>filter (\<lambda>p. \<not> excluded p) (courses (computeTermGPA cs)). credits p) \<and>
   totalQualityPoints (computeTermGPA cs) =
     (\<Sum>p\<leftarrow>filter (\<lambda>p. \<not> excluded p) (courses (computeTermGPA cs)). qualityPoints p) \<and>
   totalCredits (computeTermGPA (filter (\<lambda>c. \<not> excluded c) cs)) =
     totalCredits (computeTermGPA cs) \<and>
   totalQualityPoints (computeTermGPA (filter (\<lambda>c. \<not> excluded c) cs)) =
     totalQualityPoints (computeTermGPA cs) \<and>
   length (courses (computeTermGPA cs)) = length cs \<and>
   (\<forall>i < length cs. excluded (cs ! i) \<longrightarrow>
      course.truncate (courses (computeTermGPA cs) ! i) = cs ! i \<and>
      qualityPoints (courses (computeTermGPA cs) ! i) = 0 \<and>
      status (courses (computeTermGPA cs) ! i) = ''excluded'')"
proof -
  have "map credits (map process_course (filter (\<lambda>c. \<not> excluded c) cs)) =
      map credits (filter (\<lambda>c. \<not> excluded c) cs)"
    by (simp add: process_course_frame)
  then have out: "totalCredits (computeTermGPA cs) =
      (\<Sum>p\<leftarrow>filter (\<lambda>p. \<not> excluded p) (courses (computeTermGPA cs)). credits p)"
    by (simp only: computeTermGPA_totalCredits computeTermGPA_courses filter_process_course)
  have rows: "\<forall>i < length cs. excluded (cs ! i) \<longrightarrow>
      course.truncate (courses (computeTermGPA cs) ! i) = cs ! i \<and>
      qualityPoints (courses (computeTermGPA cs) ! i) = 0 \<and>
      status (courses (computeTermGPA cs) ! i) = ''excluded''"
    by (simp add: computeTermGPA_courses process_course_excluded)
  have len: "length (courses (computeTermGPA cs)) = length cs"
    by (simp add: computeTermGPA_courses)
  from computeTermGPA_totalCredits [of cs] out totalQualityPoints_output [of cs]
    totals_without_excluded [of cs] len rows
  show ?thesis by blast
qed

theorem excluded_contribute_nothing_witness:
  "excluded ([excluded_A, repeated_C] ! 0) \<and>
   totalCredits (computeTermGPA [excluded_A, repeated_C]) = 4 \<and>
   totalCredits (computeTermGPA [repeated_C]) = 4 \<and>
   course.truncate (courses (computeTermGPA [excluded_A, repeated_C]) ! 0) = excluded_A \<and>
   qualityPoints (courses (computeTermGPA [excluded_A, repeated_C]) ! 0) = 0 \<and>
   status (courses (computeTermGPA [excluded_A, repeated_C]) ! 0) = ''excluded''"
proof -
  have ex: "excluded ([excluded_A, repeated_C] ! 0)"
    by (simp add: excluded_A_def)
  have f: "filter (\<lambda>c. \<not> excluded c) [excluded_A, repeated_C] = [repeated_C]"
    by (simp add: excluded_A_def repeated_C_def)
  have "totalCredits (computeTermGPA [excluded_A, repeated_C]) =
      (\<Sum>c\<leftarrow>filter (\<lambda>c. \<not> excluded c) [excluded_A, repeated_C]. credits c)"
    using excluded_contribute_nothing [of "[excluded_A, repeated_C]"] by blast
  then have t: "totalCredits (computeTermGPA [excluded_A, repeated_C]) = 4"
    unfolding f by (simp add: repeated_C_def)
  have "totalCredits (computeTermGPA (filter (\<lambda>c. \<not> excluded c) [excluded_A, repeated_C])) =
      totalCredits (computeTermGPA [excluded_A, repeated_C])"
    using excluded_contribute_nothing [of "[excluded_A, repeated_C]"] by blast
  then have t': "totalCredits (computeTermGPA [repeated_C]) = 4"
    unfolding f t .
  have "\<forall>i < length [excluded_A, repeated_C]. excluded ([excluded_A, repeated_C] ! i) \<longrightarrow>
      course.truncate (courses (computeTermGPA [excluded_A, repeated_C]) ! i) =
        [excluded_A, repeated_C] ! i \<and>
      qualityPoints (courses (computeTermGPA [excluded_A, repeated_C]) ! i) = 0 \<and>
      status (courses (computeTermGPA [excluded_A, repeated_C]) ! i) = ''excluded''"
    using excluded_contribute_nothing [of "[excluded_A, repeated_C]"] by blast
  with ex have "course.truncate (courses (computeTermGPA [excluded_A, repeated_C]) ! 0) =
        [excluded_A, repeated_C] ! 0 \<and>
      qualityPoints (courses (computeTermGPA [excluded_A, repeated_C]) ! 0) = 0 \<and>
      status (courses (computeTermGPA [excluded_A, repeated_C]) ! 0) = ''excluded''"
    by (simp del: nth_Cons_0)
  with ex t t' show ?thesis
    by simp
qed

text \<open>
  Claim C7. A score that is not a number, or is NaN, gets the pair (Invalid, 0). The term
  GPA is the quotient of the totals when \<open>totalCredits\<close> is positive and the number 0
  otherwise, so when the accumulated \<open>totalCredits\<close> is 0 the GPA is 0 and not the NaN or
  Infinity that the division would give; for no course list is the GPA NaN or an infinity.
  The empty course list gives the totals 0 and the GPA 0. The functions have no statement
  that raises, and the model is total.
\<close>

theorem defined_at_the_edges:
  "(\<not> typeof_number v \<or> isNaN v \<longrightarrow>
      mapNumericToGradePoint v = \<lparr>grade_letter = ''Invalid'', point = 0\<rparr>) \<and>
   (totalCredits (computeTermGPA cs) = 0 \<longrightarrow> gpa (computeTermGPA cs) = JNumber 0) \<and>
   (totalCredits (computeTermGPA cs) > 0 \<longrightarrow>
      gpa (computeTermGPA cs) =
        JNumber (totalQualityPoints (computeTermGPA cs) / totalCredits (computeTermGPA cs))) \<and>
   (\<not> totalCredits (computeTermGPA cs) > 0 \<longrightarrow> gpa (computeTermGPA cs) = JNumber 0) \<and>
   gpa (computeTermGPA cs) \<noteq> JNaN \<and> gpa (computeTermGPA cs) \<noteq> JPosInfinity \<and>
   gpa (computeTermGPA cs) \<noteq> JNegInfinity \<and>
   computeTermGPA [] =
     \<lparr>gpa = JNumber 0, totalCredits = 0, totalQualityPoints = 0, courses = []\<rparr>"
proof -
  have a: "\<not> typeof_number v \<or> isNaN v \<longrightarrow>
      mapNumericToGradePoint v = \<lparr>grade_letter = ''Invalid'', point = 0\<rparr>"
    by (simp add: mapNumericToGradePoint_def)
  have pos: "totalCredits (computeTermGPA cs) > 0 \<longrightarrow>
      gpa (computeTermGPA cs) =
        JNumber (totalQualityPoints (computeTermGPA cs) / totalCredits (computeTermGPA cs))"
    by (simp add: computeTermGPA_gpa js_divide_def)
  have npos: "\<not> totalCredits (computeTermGPA cs) > 0 \<longrightarrow> gpa (computeTermGPA cs) = JNumber 0"
    by (simp add: computeTermGPA_gpa)
  have zero: "totalCredits (computeTermGPA cs) = 0 \<longrightarrow> gpa (computeTermGPA cs) = JNumber 0"
    using npos by simp
  have "\<exists>r. gpa (computeTermGPA cs) = JNumber r"
    using pos npos by blast
  then have fin: "gpa (computeTermGPA cs) \<noteq> JNaN \<and> gpa (computeTermGPA cs) \<noteq> JPosInfinity \<and>
      gpa (computeTermGPA cs) \<noteq> JNegInfinity"
    by auto
  have c: "computeTermGPA [] =
      \<lparr>gpa = JNumber 0, totalCredits = 0, totalQualityPoints = 0, courses = []\<rparr>"
    by (simp add: computeTermGPA_def)
  from a zero pos npos fin c show ?thesis by blast
qed

text \<open>
  At the course list of the witness the totals are both 0: the quotient itself is NaN,
  and the GPA is 0 by the guard alone.
\<close>

lemma quotient_of_zero_totals:
  "js_divide (totalQualityPoints (computeTermGPA [excluded_A]))
     (totalCredits (computeTermGPA [excluded_A])) = JNaN"
  by (simp add: computeTermGPA_totalCredits computeTermGPA_totalQualityPoints excluded_A_def
      js_divide_def)

theorem defined_at_the_edges_witness:
  "\<not> typeof_number (JString ''abc'') \<and>
   mapNumericToGradePoint (JString ''abc'') = \<lparr>grade_letter = ''Invalid'', point = 0\<rparr> \<and>
   isNaN JNaN \<and> mapNumericToGradePoint JNaN = \<lparr>grade_letter = ''Invalid'', point = 0\<rparr> \<and>
   totalCredits (computeTermGPA [excluded_A]) = 0 \<and>
   gpa (computeTermGPA [excluded_A]) = JNumber 0 \<and>
   totalCredits (computeTermGPA [repeated_C]) > 0 \<and>
   gpa (computeTermGPA [repeated_C]) = JNumber 2"
proof -
  have s: "\<not> typeof_number (JString ''abc'')" and n: "isNaN JNaN"
    by (simp_all add: isNaN_def)
  have t: "totalCredits (computeTermGPA [excluded_A]) = 0"
    by (simp add: computeTermGPA_totalCredits excluded_A_def)
  have tc: "totalCredits (computeTermGPA [repeated_C]) = 4"
    by (simp add: computeTermGPA_totalCredits repeated_C_def)
  have tq: "totalQualityPoints (computeTermGPA [repeated_C]) = 8"
    by (simp add: computeTermGPA_totalQualityPoints repeated_C_def process_defs)
  have "\<not> typeof_number (JString ''abc'') \<or> isNaN (JString ''abc'') \<longrightarrow>
      mapNumericToGradePoint (JString ''abc'') = \<lparr>grade_letter = ''Invalid'', point = 0\<rparr>"
    using defined_at_the_edges [of "JString ''abc''" "[excluded_A]"] by blast
  with s have 1: "mapNumericToGradePoint (JString ''abc'') = \<lparr>grade_letter = ''Invalid'', point = 0\<rparr>"
    by blast
  have "\<not> typeof_number JNaN \<or> isNaN JNaN \<longrightarrow>
      mapNumericToGradePoint JNaN = \<lparr>grade_letter = ''Invalid'', point = 0\<rparr>"
    using defined_at_the_edges [of JNaN "[excluded_A]"] by blast
  with n have 2: "mapNumericToGradePoint JNaN = \<lparr>grade_letter = ''Invalid'', point = 0\<rparr>"
    by blast
  have "totalCredits (computeTermGPA [excluded_A]) = 0 \<longrightarrow>
      gpa (computeTermGPA [excluded_A]) = JNumber 0"
    using defined_at_the_edges [of JNaN "[excluded_A]"] by blast
  with t have 3: "gpa (computeTermGPA [excluded_A]) = JNumber 0"
    by blast
  have p: "totalCredits (computeTermGPA [repeated_C]) > 0"
    by (simp add: tc)
  have "totalCredits (computeTermGPA [repeated_C]) > 0 \<longrightarrow>
      gpa (computeTermGPA [repeated_C]) =
        JNumber (totalQualityPoints (computeTermGPA [repeated_C]) /
          totalCredits (computeTermGPA [repeated_C]))"
    using defined_at_the_edges [of JNaN "[repeated_C]"] by blast
  with p have "gpa (computeTermGPA [repeated_C]) =
      JNumber (totalQualityPoints (computeTermGPA [repeated_C]) /
        totalCredits (computeTermGPA [repeated_C]))"
    by blast
  then have 4: "gpa (computeTermGPA [repeated_C]) = JNumber 2"
    by (simp add: tc tq)
  from s n t 1 2 3 p 4 show ?thesis by blast
qed

text \<open>
  Claim C10, as stated, fails at an excluded record: the branch of the loop for an
  excluded course adds \<open>qualityPoints\<close> and \<open>status\<close> only, so the output record has no
  \<open>wasCapped\<close>.
\<close>

theorem excluded_without_wasCapped_counterexample:
  "map excluded (courses (computeTermGPA [excluded_A])) = [True] \<and>
   map wasCapped (courses (computeTermGPA [excluded_A])) = [None]"
  by (simp add: computeTermGPA_def excluded_A_def process_defs)

lemma process_course_excluded_fields:
  assumes "excluded c"
  shows "gradePoint (process_course c) = gradePoint c \<and>
     letter (process_course c) = letter c \<and> qualityPoints (process_course c) = 0 \<and>
     status (process_course c) = ''excluded'' \<and> wasCapped (process_course c) = None"
  using assms by (simp add: process_defs)

text \<open>
  Claim C10, amended. The processed list has one record for each input record, excluded
  ones included, in the order of the input. Each output record has the input's
  \<open>id\<close>, \<open>name\<close>, \<open>credits\<close>, \<open>score\<close>, \<open>excluded\<close>, \<open>repeated\<close> and \<open>gradeType\<close>, and carries
  \<open>qualityPoints\<close> and \<open>status\<close>. An excluded record also keeps its \<open>gradePoint\<close> and
  \<open>letter\<close>, has \<open>qualityPoints = 0\<close> and the status excluded, and has no \<open>wasCapped\<close>. A
  record that is not excluded carries \<open>wasCapped\<close>, its \<open>qualityPoints\<close> are its credits
  times its resolved grade point, and its \<open>gradePoint\<close> and \<open>letter\<close> are the input's
  unless it was capped, when the letter is B+.
\<close>

theorem processed_courses_frame:
  "length (courses (computeTermGPA cs)) = length cs \<and>
   (\<forall>i < length cs.
      course_id (courses (computeTermGPA cs) ! i) = course_id (cs ! i) \<and>
      name (courses (computeTermGPA cs) ! i) = name (cs ! i) \<and>
      credits (courses (computeTermGPA cs) ! i) = credits (cs ! i) \<and>
      score (courses (computeTermGPA cs) ! i) = score (cs ! i) \<and>
      excluded (courses (computeTermGPA cs) ! i) = excluded (cs ! i) \<and>
      repeated (courses (computeTermGPA cs) ! i) = repeated (cs ! i) \<and>
      gradeType (courses (computeTermGPA cs) ! i) = gradeType (cs ! i) \<and>
      (excluded (cs ! i) \<longrightarrow>
         gradePoint (courses (computeTermGPA cs) ! i) = gradePoint (cs ! i) \<and>
         letter (courses (computeTermGPA cs) ! i) = letter (cs ! i) \<and>
         qualityPoints (courses (computeTermGPA cs) ! i) = 0 \<and>
         status (courses (computeTermGPA cs) ! i) = ''excluded'' \<and>
         wasCapped (courses (computeTermGPA cs) ! i) = None) \<and>
      (\<not> excluded (cs ! i) \<longrightarrow>
         qualityPoints (courses (computeTermGPA cs) ! i) =
           credits (cs ! i) * gradePoint (courses (computeTermGPA cs) ! i) \<and>
         (wasCapped (courses (computeTermGPA cs) ! i) = Some True \<or>
          wasCapped (courses (computeTermGPA cs) ! i) = Some False) \<and>
         (wasCapped (courses (computeTermGPA cs) ! i) = Some True \<longrightarrow>
            letter (courses (computeTermGPA cs) ! i) = ''B+'' \<and>
            status (courses (computeTermGPA cs) ! i) = ''capped'') \<and>
         (wasCapped (courses (computeTermGPA cs) ! i) = Some False \<longrightarrow>
            gradePoint (courses (computeTermGPA cs) ! i) = gradePoint (cs ! i) \<and>
            letter (courses (computeTermGPA cs) ! i) = letter (cs ! i) \<and>
            status (courses (computeTermGPA cs) ! i) = ''included'')))"
  (is "_ \<and> (\<forall>i<_. ?row i)")
proof -
  have len: "length (courses (computeTermGPA cs)) = length cs"
    by (simp add: computeTermGPA_courses)
  have "?row i" if "i < length cs" for i
  proof -
    from that have row: "courses (computeTermGPA cs) ! i = process_course (cs ! i)"
      by (simp add: computeTermGPA_courses)
    from process_course_frame [of "cs ! i"] process_course_excluded_fields [of "cs ! i"]
      process_course_included [of "cs ! i"]
    show ?thesis unfolding row by blast
  qed
  with len show ?thesis by blast
qed

theorem processed_courses_frame_witness:
  "excluded ([excluded_A, repeated_C] ! 0) \<and> \<not> excluded ([excluded_A, repeated_C] ! 1) \<and>
   map name (courses (computeTermGPA [excluded_A, repeated_C])) = map name [excluded_A, repeated_C] \<and>
   map status (courses (computeTermGPA [excluded_A, repeated_C])) = [''excluded'', ''included''] \<and>
   map qualityPoints (courses (computeTermGPA [excluded_A, repeated_C])) = [0, 8] \<and>
   map wasCapped (courses (computeTermGPA [excluded_A, repeated_C])) = [None, Some False]"
proof -
  let ?cs = "[excluded_A, repeated_C]"
  let ?out = "courses (computeTermGPA ?cs)"
  note frame = processed_courses_frame [of ?cs]
  have e0: "excluded (?cs ! 0)" and e1: "\<not> excluded (?cs ! 1)"
    by (simp_all add: excluded_A_def repeated_C_def)
  have len: "length ?out = 2"
    using frame by simp
  then have shape: "?out = [?out ! 0, ?out ! 1]"
    by (cases ?out; cases "tl ?out") auto
  have n0: "name (?out ! 0) = name (?cs ! 0)" and n1: "name (?out ! 1) = name (?cs ! 1)"
    using frame by simp_all
  have r0: "status (?out ! 0) = ''excluded'' \<and> qualityPoints (?out ! 0) = 0 \<and>
      wasCapped (?out ! 0) = None"
    using frame e0 by simp
  have c1: "wasCapped (?out ! 1) = Some False"
    by (simp add: computeTermGPA_def excluded_A_def repeated_C_def process_defs)
  have r1: "status (?out ! 1) = ''included'' \<and>
      qualityPoints (?out ! 1) = credits (?cs ! 1) * gradePoint (?cs ! 1)"
    using frame e1 c1 by simp
  have q1: "credits (?cs ! 1) * gradePoint (?cs ! 1) = 8"
    by (simp add: repeated_C_def)
  show ?thesis
    using e0 e1 n0 n1 r0 r1 c1 q1 by (subst (1 2 3 4) shape) simp
qed

section \<open>Properties of the cumulative combiner\<close>

text \<open>
  Claim C5. The previous quality points are the explicit value whenever one is given,
  whatever \<open>prevCGPA * prevCredits\<close> is, and that product otherwise; the new total credits
  are \<open>prevCredits + termCredits\<close>, the new total quality points the previous quality
  points plus the term's, and the CGPA their quotient when the new total credits are
  positive, else the number 0 (where the division would give NaN or an infinity, or a
  quotient by a negative total).
\<close>

theorem computeNewCGPA_spec:
  "(e = Some x \<longrightarrow> prevQualityPoints (computeNewCGPA g c q t e) = x) \<and>
   (e = None \<longrightarrow> prevQualityPoints (computeNewCGPA g c q t e) = g * c) \<and>
   newTotalCredits (computeNewCGPA g c q t e) = c + t \<and>
   newTotalQualityPoints (computeNewCGPA g c q t e) =
     prevQualityPoints (computeNewCGPA g c q t e) + q \<and>
   (newTotalCredits (computeNewCGPA g c q t e) > 0 \<longrightarrow>
      cgpa (computeNewCGPA g c q t e) =
        JNumber (newTotalQualityPoints (computeNewCGPA g c q t e) /
          newTotalCredits (computeNewCGPA g c q t e))) \<and>
   (\<not> newTotalCredits (computeNewCGPA g c q t e) > 0 \<longrightarrow>
      cgpa (computeNewCGPA g c q t e) = JNumber 0)"
  by (simp add: computeNewCGPA_def Let_def js_divide_def)

text \<open>
  The witness has the README's second test (90 + 11 quality points on 33 credits), the
  same with explicit previous quality points 95 that disagree with 3 * 30, and three
  inputs whose new total credits are not positive: 0 with quality points 0 (the quotient
  would be NaN), 0 with quality points 5 (Infinity), and -1.
\<close>

theorem computeNewCGPA_spec_witness:
  "prevQualityPoints (computeNewCGPA 3 30 11 3 None) = 90 \<and>
   newTotalCredits (computeNewCGPA 3 30 11 3 None) = 33 \<and>
   newTotalQualityPoints (computeNewCGPA 3 30 11 3 None) = 101 \<and>
   cgpa (computeNewCGPA 3 30 11 3 None) = JNumber (101 / 33) \<and>
   prevQualityPoints (computeNewCGPA 3 30 11 3 (Some 95)) = 95 \<and>
   cgpa (computeNewCGPA 3 30 11 3 (Some 95)) = JNumber (106 / 33) \<and>
   newTotalCredits (computeNewCGPA 3 0 0 0 None) = 0 \<and>
   cgpa (computeNewCGPA 3 0 0 0 None) = JNumber 0 \<and>
   newTotalCredits (computeNewCGPA 3 0 5 0 None) = 0 \<and>
   newTotalQualityPoints (computeNewCGPA 3 0 5 0 None) = 5 \<and>
   cgpa (computeNewCGPA 3 0 5 0 None) = JNumber 0 \<and>
   newTotalCredits (computeNewCGPA 3 0 5 (- 1) None) = - 1 \<and>
   cgpa (computeNewCGPA 3 0 5 (- 1) None) = JNumber 0"
proof -
  note a = computeNewCGPA_spec [of None 0 3 30 11 3]
  note b = computeNewCGPA_spec [of "Some 95" 95 3 30 11 3]
  note z = computeNewCGPA_spec [of None 0 3 0 0 0]
  note y = computeNewCGPA_spec [of None 0 3 0 5 0]
  note w = computeNewCGPA_spec [of None 0 3 0 5 "- 1"]
  have a1: "prevQualityPoints (computeNewCGPA 3 30 11 3 None) = 90"
    and a2: "newTotalCredits (computeNewCGPA 3 30 11 3 None) = 33"
    using a by simp_all
  have a3: "newTotalQualityPoints (computeNewCGPA 3 30 11 3 None) = 101"
    using a a1 by simp
  have a4: "cgpa (computeNewCGPA 3 30 11 3 None) = JNumber (101 / 33)"
    using a a2 a3 by simp
  have b1: "prevQualityPoints (computeNewCGPA 3 30 11 3 (Some 95)) = 95"
    and b2: "newTotalCredits (computeNewCGPA 3 30 11 3 (Some 95)) = 33"
    using b by simp_all
  have b3: "newTotalQualityPoints (computeNewCGPA 3 30 11 3 (Some 95)) = 106"
    using b b1 by simp
  have b4: "cgpa (computeNewCGPA 3 30 11 3 (Some 95)) = JNumber (106 / 33)"
    using b b2 b3 by simp
  have z0: "newTotalCredits (computeNewCGPA 3 0 0 0 None) = 0"
    using z by simp
  have z1: "cgpa (computeNewCGPA 3 0 0 0 None) = JNumber 0"
    using z z0 by simp
  have y0: "newTotalCredits (computeNewCGPA 3 0 5 0 None) = 0"
    and yp: "prevQualityPoints (computeNewCGPA 3 0 5 0 None) = 0"
    using y by simp_all
  have y1: "newTotalQualityPoints (computeNewCGPA 3 0 5 0 None) = 5"
    using y yp by simp
  have y2: "cgpa (computeNewCGPA 3 0 5 0 None) = JNumber 0"
    using y y0 by simp
  have w0: "newTotalCredits (computeNewCGPA 3 0 5 (- 1) None) = - 1"
    using w by simp
  have w1: "cgpa (computeNewCGPA 3 0 5 (- 1) None) = JNumber 0"
    using w w0 by simp
  from a1 a2 a3 a4 b1 b4 z0 z1 y0 y1 y2 w0 w1 show ?thesis by blast
qed

end
